theory Spec2Isabelle
  imports Complex_Main
begin

section \<open>The loss module \<open>lib/core/loss.py\<close>\<close>

text \<open>
  Python floats and the elements of the tensors handed to the module are modelled as real
  numbers, without rounding and overflow. A loss value, which a criterion returns and the
  aggregator scales and adds, is a real number, an infinity or \<open>nan\<close>, with the sums and
  products of IEEE arithmetic. An exception raised by the module is a value of type
  \<open>error\<close>.
\<close>

datatype error = AssertionError | IndexError | RuntimeError | ValueError | ZeroDivisionError

subsection \<open>Loss values\<close>

text \<open>
  A sum or product with \<open>nan\<close> is \<open>nan\<close>; the sum of the two infinities and the product
  of 0 and an infinity are \<open>nan\<close>; otherwise an infinity absorbs a finite value, with the
  sign of the product.
\<close>

datatype fl = Finite real | Inf | NegInf | Nan

instantiation fl :: "{zero, plus, times}"
begin

definition zero_fl :: fl where
  "zero_fl = Finite 0"

fun plus_fl :: "fl \<Rightarrow> fl \<Rightarrow> fl" where
  "plus_fl (Finite a) (Finite b) = Finite (a + b)"
| "plus_fl Nan y = Nan"
| "plus_fl x Nan = Nan"
| "plus_fl Inf NegInf = Nan"
| "plus_fl NegInf Inf = Nan"
| "plus_fl Inf y = Inf"
| "plus_fl x Inf = Inf"
| "plus_fl NegInf y = NegInf"
| "plus_fl x NegInf = NegInf"

fun times_fl :: "fl \<Rightarrow> fl \<Rightarrow> fl" where
  "times_fl (Finite a) (Finite b) = Finite (a * b)"
| "times_fl Nan y = Nan"
| "times_fl x Nan = Nan"
| "times_fl Inf (Finite b) = (if b = 0 then Nan else if 0 < b then Inf else NegInf)"
| "times_fl NegInf (Finite b) = (if b = 0 then Nan else if 0 < b then NegInf else Inf)"
| "times_fl (Finite a) Inf = (if a = 0 then Nan else if 0 < a then Inf else NegInf)"
| "times_fl (Finite a) NegInf = (if a = 0 then Nan else if 0 < a then NegInf else Inf)"
| "times_fl Inf Inf = Inf"
| "times_fl NegInf NegInf = Inf"
| "times_fl Inf NegInf = NegInf"
| "times_fl NegInf Inf = NegInf"

instance ..

end

subsection \<open>\<open>smooth_BCE\<close>\<close>

text \<open>
  \<^verbatim>\<open>
  def smooth_BCE(eps=0.1):
      return 1.0 - 0.5 * eps, 0.5 * eps
  \<close>
\<close>

definition smooth_BCE :: "real \<Rightarrow> real \<times> real" where
  "smooth_BCE eps = (1.0 - 0.5 * eps, 0.5 * eps)"

subsection \<open>The wrapped criterion, \<open>nn.BCEWithLogitsLoss\<close>\<close>

text \<open>
  \<open>FocalLoss\<close> wraps a \<open>nn.BCEWithLogitsLoss\<close> object, reads its \<open>reduction\<close>
  attribute and overwrites it. The object is a record of its positive weight and its
  reduction mode. Its forward pass follows the documentation of torch: the elementwise
  loss is \<open>- (pos_weight * y * log (sigmoid x) + (1 - y) * log (1 - sigmoid x))\<close>, reduced
  by \<open>mean\<close>, \<open>sum\<close> or not at all; a target of another size than the input and an
  unknown reduction mode raise \<open>ValueError\<close>. A tensor handed to a criterion is the list
  of its elements in row-major order. The result is a tensor of the same size or a
  scalar; the mean of an empty tensor is the scalar \<open>nan\<close>, which has a constructor of its
  own since no real number stands for it.
\<close>

definition sigmoid :: "real \<Rightarrow> real" where
  "sigmoid x = 1 / (1 + exp (- x))"

datatype tensor = Scalar real | Elems "real list" | NaN

definition mean_t :: "real list \<Rightarrow> tensor" where
  "mean_t xs = (if xs = [] then NaN else Scalar (sum_list xs / real (length xs)))"

definition sum_t :: "real list \<Rightarrow> tensor" where
  "sum_t xs = Scalar (sum_list xs)"

record BCEWithLogitsLoss =
  pos_weight :: real
  reduction :: string

definition bce_elem :: "real \<Rightarrow> real \<Rightarrow> real \<Rightarrow> real" where
  "bce_elem pw x y = - (pw * y * ln (sigmoid x) + (1 - y) * ln (1 - sigmoid x))"

definition BCEWithLogitsLoss_forward ::
  "BCEWithLogitsLoss \<Rightarrow> real list \<Rightarrow> real list \<Rightarrow> error + tensor" where
  "BCEWithLogitsLoss_forward self input target =
     (if length target \<noteq> length input then Inl ValueError
      else let loss = map2 (bce_elem (pos_weight self)) input target
           in if reduction self = ''none'' then Inr (Elems loss)
              else if reduction self = ''mean'' then Inr (mean_t loss)
              else if reduction self = ''sum'' then Inr (sum_t loss)
              else Inl ValueError)"

subsection \<open>\<open>FocalLoss\<close>\<close>

text \<open>
  The wrapper keeps a reference to the wrapped object and changes that object when it is
  built, so the objects live in a store, addressed by numbers, and the wrapper holds the
  address.
  \<^verbatim>\<open>
  def __init__(self, loss_fcn, gamma=1.5, alpha=0.25):
      super(FocalLoss, self).__init__()
      self.loss_fcn = loss_fcn  # must be nn.BCEWithLogitsLoss()
      self.gamma = gamma
      self.alpha = alpha
      self.reduction = loss_fcn.reduction
      self.loss_fcn.reduction = 'none'  # required to apply FL to each element
  \<close>
\<close>

type_synonym heap = "nat \<Rightarrow> BCEWithLogitsLoss"

record FocalLoss =
  loss_fcn :: nat
  gamma :: real
  alpha :: real
  reduction :: string

definition FocalLoss_init :: "heap \<Rightarrow> nat \<Rightarrow> real \<Rightarrow> real \<Rightarrow> heap \<times> FocalLoss" where
  "FocalLoss_init h loss_fcn' gamma' alpha' =
     (h(loss_fcn' := (h loss_fcn')\<lparr>BCEWithLogitsLoss.reduction := ''none''\<rparr>),
      \<lparr>loss_fcn = loss_fcn', gamma = gamma', alpha = alpha',
       reduction = BCEWithLogitsLoss.reduction (h loss_fcn')\<rparr>)"

text \<open>
  The power \<open>x ** gamma\<close> of torch is 1 for the exponent 0, whatever the base, and the
  real power for a positive base. For a negative base and for the base 0 with a negative
  exponent torch gives \<open>nan\<close> or \<open>inf\<close>; no property below depends on the value there.
\<close>

definition pow_t :: "real \<Rightarrow> real \<Rightarrow> real" where
  "pow_t x g = (if g = 0 then 1 else x powr g)"

text \<open>
  \<^verbatim>\<open>
  def forward(self, pred, true):
      loss = self.loss_fcn(pred, true)
      pred_prob = torch.sigmoid(pred)  # prob from logits
      p_t = true * pred_prob + (1 - true) * (1 - pred_prob)
      alpha_factor = true * self.alpha + (1 - true) * (1 - self.alpha)
      modulating_factor = (1.0 - p_t) ** self.gamma
      loss *= alpha_factor * modulating_factor
      if self.reduction == 'mean':
          return loss.mean()
      elif self.reduction == 'sum':
          return loss.sum()
      else:  # 'none'
          return loss
  \<close>
  When the wrapped object returns a scalar (its reduction was changed again after the
  wrapping), the in-place product with a tensor of the size of \<open>pred\<close> raises.
\<close>

definition FocalLoss_forward ::
  "heap \<Rightarrow> FocalLoss \<Rightarrow> real list \<Rightarrow> real list \<Rightarrow> error + tensor" where
  "FocalLoss_forward h self pred true =
     (case BCEWithLogitsLoss_forward (h (loss_fcn self)) pred true of
        Inl e \<Rightarrow> Inl e
      | Inr (Elems loss) \<Rightarrow>
          (let pred_prob = map sigmoid pred;
               p_t = map2 (\<lambda>t p. t * p + (1 - t) * (1 - p)) true pred_prob;
               alpha_factor = map (\<lambda>t. t * alpha self + (1 - t) * (1 - alpha self)) true;
               modulating_factor = map (\<lambda>p. pow_t (1.0 - p) (gamma self)) p_t;
               loss' = map2 (*) loss (map2 (*) alpha_factor modulating_factor)
           in if reduction self = ''mean'' then Inr (mean_t loss')
              else if reduction self = ''sum'' then Inr (sum_t loss')
              else Inr (Elems loss'))
      | Inr _ \<Rightarrow> Inl RuntimeError)"

subsection \<open>\<open>MultiHeadLoss.__init__\<close>\<close>

text \<open>
  A criterion handed to \<open>MultiHeadLoss\<close> is a callable from a prediction tensor and a
  target tensor to a scalar loss, which may be infinite or \<open>nan\<close>. The criteria are
  arguments of the constructor; the model takes them as functions on the row-major
  contents of the two tensors.
\<close>

type_synonym criterion = "real list \<Rightarrow> real list \<Rightarrow> fl"

text \<open>The fields of the configuration object that the module reads
  (\<open>cfg.LOSS.*_GAIN\<close>, \<open>cfg.TRAIN.FREEZE_SEG\<close>).\<close>

record config =
  CLS_GAIN :: real
  OBJ_GAIN :: real
  BOX_GAIN :: real
  SEG_GAIN :: real
  FREEZE_SEG :: bool

record MultiHeadLoss =
  losses :: "criterion list"
  lambdas :: "real list"
  cfg :: config

text \<open>
  \<^verbatim>\<open>
  def __init__(self, losses, cfg, lambdas=None):
      if not lambdas:
          lambdas = [1.0 for _ in range(len(losses) + 1)]
      assert all(lam >= 0.0 for lam in lambdas)
      self.losses = nn.ModuleList(losses)
      self.lambdas = lambdas
      self.cfg = cfg
  \<close>
  The argument \<open>lambdas\<close> is \<open>None\<close> or a list; \<open>None\<close> and the empty list are
  the falsy ones.
\<close>

definition MultiHeadLoss_init ::
  "criterion list \<Rightarrow> config \<Rightarrow> real list option \<Rightarrow> error + MultiHeadLoss" where
  "MultiHeadLoss_init ls c lams =
     (let lams' = (case lams of
                     None \<Rightarrow> replicate (length ls + 1) 1.0
                   | Some xs \<Rightarrow> if xs = [] then replicate (length ls + 1) 1.0 else xs)
      in if list_all (\<lambda>lam. lam \<ge> 0.0) lams'
         then Inr \<lparr>losses = ls, lambdas = lams', cfg = c\<rparr>
         else Inl AssertionError)"

subsection \<open>The tensors of the detection head\<close>

text \<open>
  A per-scale prediction has the shape (batch, anchor, grid row, grid column, channel),
  with the channels x, y, w, h, objectness and one logit for each class. It is a
  four-fold nested list of cells; \<open>pi[..., 0]\<close> and the target \<open>tobj\<close> are four-fold
  nested lists of numbers.
\<close>

record cell =
  c_x :: real
  c_y :: real
  c_w :: real
  c_h :: real
  c_obj :: real
  c_cls :: "real list"

type_synonym 'a grid = "'a list list list list"

type_synonym box = "real \<times> real \<times> real \<times> real"

text \<open>
  \<open>build_targets\<close> (\<open>lib/core/postprocess.py\<close>) is not among the sources; its result is
  an argument of the model. For each scale it returns parallel arrays with one row for
  each matched target: \<open>indices[i] = (b, a, gj, gi)\<close>, \<open>tbox[i]\<close>, \<open>tcls[i]\<close> and
  \<open>anchors[i]\<close>. The model takes the rows: the result for one scale is a list of matches,
  and \<open>b.shape[0]\<close> is its length.
\<close>

record match =
  m_b :: int
  m_a :: int
  m_gj :: int
  m_gi :: int
  m_tbox :: box
  m_tcls :: int
  m_anchor :: "real \<times> real"

text \<open>The two attributes of the model that the loss reads.\<close>

record model =
  gr :: real
  nc :: int

text \<open>The accumulators of the loop: \<open>lcls\<close>, \<open>lbox\<close>, \<open>lobj\<close> and the count \<open>nt\<close>.\<close>

record acc =
  lcls :: fl
  lbox :: fl
  lobj :: fl
  nt :: nat

text \<open>An index into a dimension of size \<open>d\<close>: a negative index counts from the end, an
  index outside \<open>-d \<dots> d - 1\<close> raises \<open>IndexError\<close> (here \<open>None\<close>).\<close>

definition norm_index :: "nat \<Rightarrow> int \<Rightarrow> nat option" where
  "norm_index d k =
     (if 0 \<le> k \<and> k < int d then Some (nat k)
      else if - int d \<le> k \<and> k < 0 then Some (nat (k + int d))
      else None)"

definition locate :: "'a grid \<Rightarrow> match \<Rightarrow> (nat \<times> nat \<times> nat \<times> nat) option" where
  "locate g m =
     (case norm_index (length g) (m_b m) of None \<Rightarrow> None | Some b \<Rightarrow>
      (case norm_index (length (g ! b)) (m_a m) of None \<Rightarrow> None | Some a \<Rightarrow>
       (case norm_index (length (g ! b ! a)) (m_gj m) of None \<Rightarrow> None | Some j \<Rightarrow>
        (case norm_index (length (g ! b ! a ! j)) (m_gi m) of None \<Rightarrow> None | Some i \<Rightarrow>
           Some (b, a, j, i)))))"

fun get4 :: "'a grid \<Rightarrow> nat \<times> nat \<times> nat \<times> nat \<Rightarrow> 'a" where
  "get4 g (b, a, j, i) = g ! b ! a ! j ! i"

fun set4 :: "'a grid \<Rightarrow> nat \<times> nat \<times> nat \<times> nat \<Rightarrow> 'a \<Rightarrow> 'a grid" where
  "set4 g (b, a, j, i) v = g[b := (g ! b)[a := (g ! b ! a)[j := (g ! b ! a ! j)[i := v]]]]"

text \<open>The indexed assignment \<open>tobj[b, a, gj, gi] = vals\<close>: the values are written in the
  order of the rows, so that of two rows with the same indices the later one stays.\<close>

definition index_put :: "'a grid \<Rightarrow> (nat \<times> nat \<times> nat \<times> nat) list \<Rightarrow> 'a list \<Rightarrow> 'a grid" where
  "index_put g locs vals = fold (\<lambda>(l, v) g'. set4 g' l v) (zip locs vals) g"

definition zeros_like :: "'a grid \<Rightarrow> real grid" where
  "zeros_like g = map (map (map (map (\<lambda>_. 0)))) g"

definition obj_channel :: "cell grid \<Rightarrow> real grid" where
  "obj_channel g = map (map (map (map c_obj))) g"

definition flatten :: "'a grid \<Rightarrow> 'a list" where
  "flatten g = concat (concat (concat g))"

definition mean :: "real list \<Rightarrow> real" where
  "mean xs = sum_list xs / real (length xs)"

subsection \<open>\<open>MultiHeadLoss._forward_impl\<close>\<close>

text \<open>
  The body of the loop over the scales, for a scale with matches:
  \<^verbatim>\<open>
  nt += n  # cumulative targets
  ps = pi[b, a, gj, gi]  # prediction subset corresponding to targets
  pxy = ps[:, :2].sigmoid() * 2. - 0.5
  pwh = (ps[:, 2:4].sigmoid() * 2) ** 2 * anchors[i]
  pbox = torch.cat((pxy, pwh), 1).to(device)  # predicted box
  iou = bbox_iou(pbox.T, tbox[i], x1y1x2y2=False, CIoU=True)
  lbox += (1.0 - iou).mean()  # iou loss
  tobj[b, a, gj, gi] = (1.0 - model.gr) + model.gr * iou.detach().clamp(0).type(tobj.dtype)
  if model.nc > 1:  # cls loss (only if multiple classes)
      t = torch.full_like(ps[:, 5:], cn, device=device)  # targets
      t[range(n), tcls[i]] = cp
      lcls += BCEcls(ps[:, 5:], t)  # BCE
  \<close>
  \<open>bbox_iou\<close> (\<open>lib/core/general.py\<close>) is not among the sources. It works on the rows of
  its two arguments, one predicted box against one target box, so the model takes it as a
  function of one pair of boxes. The pair \<open>cp, cn = smooth_BCE(eps=0.0)\<close>, which the source
  computes once before the loop, is computed where it is used. The prediction \<open>pi\<close> of the
  source is written \<open>pi'\<close>, and \<open>mean\<close> is only applied to the losses of at least one
  match.
\<close>

definition decode :: "cell \<Rightarrow> real \<times> real \<Rightarrow> box" where
  "decode ps anc =
     (sigmoid (c_x ps) * 2 - 0.5, sigmoid (c_y ps) * 2 - 0.5,
      (sigmoid (c_w ps) * 2)\<^sup>2 * fst anc, (sigmoid (c_h ps) * 2)\<^sup>2 * snd anc)"

definition cls_row :: "real \<Rightarrow> real \<Rightarrow> cell \<Rightarrow> match \<Rightarrow> error + real list" where
  "cls_row cp cn ps m =
     (let t = replicate (length (c_cls ps)) cn
      in case norm_index (length t) (m_tcls m) of
           None \<Rightarrow> Inl IndexError
         | Some j \<Rightarrow> Inr (t[j := cp]))"

fun collect :: "(error + 'a) list \<Rightarrow> error + 'a list" where
  "collect [] = Inr []"
| "collect (Inl e # rs) = Inl e"
| "collect (Inr x # rs) = (case collect rs of Inl e \<Rightarrow> Inl e | Inr xs \<Rightarrow> Inr (x # xs))"

definition matched ::
  "(box \<Rightarrow> box \<Rightarrow> real) \<Rightarrow> criterion \<Rightarrow> model \<Rightarrow> cell grid \<Rightarrow> match list \<Rightarrow> acc \<Rightarrow> real grid
     \<Rightarrow> error + (acc \<times> real grid)" where
  "matched bbox_iou BCEcls mdl pi' ms ac tobj =
     (case those (map (locate pi') ms) of
        None \<Rightarrow> Inl IndexError
      | Some locs \<Rightarrow>
          (let (cp, cn) = smooth_BCE 0.0;
               nt' = nt ac + length ms;
               ps = map (get4 pi') locs;
               pbox = map2 decode ps (map m_anchor ms);
               iou = map2 bbox_iou pbox (map m_tbox ms);
               lbox' = lbox ac + Finite (mean (map (\<lambda>u. 1.0 - u) iou));
               tobj' = index_put tobj locs (map (\<lambda>u. (1.0 - gr mdl) + gr mdl * max u 0) iou)
           in if nc mdl > 1
              then (case collect (map2 (cls_row cp cn) ps ms) of
                      Inl e \<Rightarrow> Inl e
                    | Inr t \<Rightarrow>
                        Inr (ac\<lparr>nt := nt', lbox := lbox',
                                lcls := lcls ac + BCEcls (concat (map c_cls ps)) (concat t)\<rparr>,
                             tobj'))
              else Inr (ac\<lparr>nt := nt', lbox := lbox'\<rparr>, tobj')))"

text \<open>
  One pass of the loop, for the scale \<open>i\<close> with the prediction \<open>pi\<close> and the matches
  \<open>ms\<close>. It returns the accumulators and the target tensor \<open>tobj\<close> of the scale.
  \<^verbatim>\<open>
  b, a, gj, gi = indices[i]  # image, anchor, gridy, gridx
  tobj = torch.zeros_like(pi[..., 0], device=device)  # target obj
  n = b.shape[0]  # number of targets
  if n:
      ...
  lobj += BCEobj(pi[..., 4], tobj) * balance[i]  # obj loss
  \<close>
\<close>

definition scale_body ::
  "(box \<Rightarrow> box \<Rightarrow> real) \<Rightarrow> criterion \<Rightarrow> criterion \<Rightarrow> model \<Rightarrow> real list \<Rightarrow> nat
     \<Rightarrow> cell grid \<Rightarrow> match list \<Rightarrow> acc \<Rightarrow> error + (acc \<times> real grid)" where
  "scale_body bbox_iou BCEcls BCEobj mdl balance i pi' ms ac =
     (case (if length ms \<noteq> 0 then matched bbox_iou BCEcls mdl pi' ms ac (zeros_like pi')
            else Inr (ac, zeros_like pi')) of
        Inl e \<Rightarrow> Inl e
      | Inr (ac', tobj) \<Rightarrow>
          if i < length balance
          then Inr (ac'\<lparr>lobj := lobj ac' + BCEobj (flatten (obj_channel pi')) (flatten tobj)
                                              * Finite (balance ! i)\<rparr>,
                    tobj)
          else Inl IndexError)"

text \<open>The loop \<open>for i, pi in enumerate(predictions[0])\<close>; \<open>bt\<close> is the result of
  \<open>build_targets\<close>, one list of matches for each scale.\<close>

fun det_loop ::
  "(box \<Rightarrow> box \<Rightarrow> real) \<Rightarrow> criterion \<Rightarrow> criterion \<Rightarrow> model \<Rightarrow> real list \<Rightarrow> match list list
     \<Rightarrow> nat \<Rightarrow> cell grid list \<Rightarrow> acc \<Rightarrow> error + acc" where
  "det_loop bbox_iou BCEcls BCEobj mdl balance bt i [] ac = Inr ac"
| "det_loop bbox_iou BCEcls BCEobj mdl balance bt i (pi' # rest) ac =
     (if i < length bt
      then (case scale_body bbox_iou BCEcls BCEobj mdl balance i pi' (bt ! i) ac of
              Inl e \<Rightarrow> Inl e
            | Inr (ac', tobj) \<Rightarrow> det_loop bbox_iou BCEcls BCEobj mdl balance bt (Suc i) rest ac')
      else Inl IndexError)"

definition balance_of :: "nat \<Rightarrow> real list" where
  "balance_of no = (if no = 3 then [4.0, 1.0, 0.4] else [4.0, 1.0, 0.4, 0.1])"

text \<open>
  The arguments: the object, \<open>bbox_iou\<close>, the result of \<open>build_targets\<close>, the detection
  predictions \<open>predictions[0]\<close>, the flattened segmentation prediction
  \<open>predictions[-1].view(-1)\<close> and target \<open>targets[-1].view(-1)\<close>, and the model.
  \<^verbatim>\<open>
  BCEcls, BCEobj, BCEseg = self.losses
  no = len(predictions[0])  # number of outputs
  balance = [4.0, 1.0, 0.4] if no == 3 else [4.0, 1.0, 0.4, 0.1]  # P3-5 or P3-6
  for i, pi in enumerate(predictions[0]):
      ...
  lseg = BCEseg(seg_predicts, seg_targets)
  s = 3 / no  # output count scaling
  lcls *= cfg.LOSS.CLS_GAIN * s * self.lambdas[0]
  lobj *= cfg.LOSS.OBJ_GAIN * s * (1.4 if no == 4 else 1.) * self.lambdas[1]
  lbox *= cfg.LOSS.BOX_GAIN * s * self.lambdas[2]
  lseg *= cfg.LOSS.SEG_GAIN * self.lambdas[3]
  if cfg.TRAIN.FREEZE_SEG:
      lseg = 0 * lseg
  loss = lbox + lobj + lcls + lseg
  return loss, (lbox.item(), lobj.item(), lcls.item(), lseg.item(), loss.item())
  \<close>
\<close>

definition forward_impl ::
  "MultiHeadLoss \<Rightarrow> (box \<Rightarrow> box \<Rightarrow> real) \<Rightarrow> match list list \<Rightarrow> cell grid list \<Rightarrow> real list
     \<Rightarrow> real list \<Rightarrow> model \<Rightarrow> error + (fl \<times> (fl \<times> fl \<times> fl \<times> fl \<times> fl))" where
  "forward_impl self bbox_iou bt preds seg_predicts seg_targets mdl =
     (case losses self of
        [BCEcls, BCEobj, BCEseg] \<Rightarrow>
          (let no = length preds
           in case det_loop bbox_iou BCEcls BCEobj mdl (balance_of no) bt 0 preds
                     \<lparr>lcls = 0, lbox = 0, lobj = 0, nt = 0\<rparr> of
                Inl e \<Rightarrow> Inl e
              | Inr ac \<Rightarrow>
                  (let lseg = BCEseg seg_predicts seg_targets
                   in if no = 0 then Inl ZeroDivisionError
                      else if length (lambdas self) < 4 then Inl IndexError
                      else
                        (let s = 3 / real no;
                             lcls' = lcls ac * Finite (CLS_GAIN (cfg self) * s * lambdas self ! 0);
                             lobj' = lobj ac * Finite (OBJ_GAIN (cfg self) * s
                                                 * (if no = 4 then 1.4 else 1.0) * lambdas self ! 1);
                             lbox' = lbox ac * Finite (BOX_GAIN (cfg self) * s * lambdas self ! 2);
                             lseg' = lseg * Finite (SEG_GAIN (cfg self) * lambdas self ! 3);
                             lseg'' = (if FREEZE_SEG (cfg self) then 0 * lseg' else lseg');
                             loss = lbox' + lobj' + lcls' + lseg''
                         in Inr (loss, (lbox', lobj', lcls', lseg'', loss)))))
      | _ \<Rightarrow> Inl ValueError)"

text \<open>
  \<^verbatim>\<open>
  def forward(self, head_fields, head_targets, model):
      total_loss, head_losses = self._forward_impl(head_fields, head_targets, model)
      return total_loss, head_losses
  \<close>
\<close>

definition forward ::
  "MultiHeadLoss \<Rightarrow> (box \<Rightarrow> box \<Rightarrow> real) \<Rightarrow> match list list \<Rightarrow> cell grid list \<Rightarrow> real list
     \<Rightarrow> real list \<Rightarrow> model \<Rightarrow> error + (fl \<times> (fl \<times> fl \<times> fl \<times> fl \<times> fl))" where
  "forward self bbox_iou bt preds seg_predicts seg_targets mdl =
     forward_impl self bbox_iou bt preds seg_predicts seg_targets mdl"

section \<open>Notions used in the statements\<close>

text \<open>An index tuple that lies inside a grid.\<close>

definition valid4 :: "'a grid \<Rightarrow> nat \<times> nat \<times> nat \<times> nat \<Rightarrow> bool" where
  "valid4 g l = (case l of (b, a, j, i) \<Rightarrow>
       b < length g \<and> a < length (g ! b) \<and> j < length (g ! b ! a) \<and> i < length (g ! b ! a ! j))"

text \<open>What the focal wrapper makes of one element: the base loss times the balance
  factor and the modulating factor.\<close>

definition focal_elem :: "real \<Rightarrow> real \<Rightarrow> real \<Rightarrow> real \<Rightarrow> real \<Rightarrow> real" where
  "focal_elem pw g a x y =
     bce_elem pw x y *
       ((y * a + (1 - y) * (1 - a)) * pow_t (1 - (y * sigmoid x + (1 - y) * (1 - sigmoid x))) g)"

text \<open>A tensor multiplied by a number.\<close>

fun scale_t :: "real \<Rightarrow> tensor \<Rightarrow> tensor" where
  "scale_t c (Scalar x) = Scalar (c * x)"
| "scale_t c (Elems xs) = Elems (map (\<lambda>x. c * x) xs)"
| "scale_t c NaN = NaN"


section \<open>A concrete batch\<close>

text \<open>
  The concrete instances below use a criterion with mean reduction and positive weight
  \<open>pw\<close>, as \<open>get_loss\<close> builds them, and the plain intersection over union of two
  boxes given by centre and size in the place of \<open>bbox_iou\<close>. The mean over an empty
  tensor is \<open>nan\<close>. The criterion is only applied to two tensors of one size; for tensors
  of different sizes torch raises \<open>ValueError\<close>, which is not among the values of a
  criterion here.
\<close>

definition bce_mean :: "real \<Rightarrow> criterion" where
  "bce_mean pw input target =
     (if input = [] then Nan
      else Finite (sum_list (map2 (bce_elem pw) input target) / real (length input)))"

definition iou_plain :: "box \<Rightarrow> box \<Rightarrow> real" where
  "iou_plain b1 b2 =
     (case (b1, b2) of ((x1, y1, w1, h1), (x2, y2, w2, h2)) \<Rightarrow>
        (let iw = max 0 (min (x1 + w1 / 2) (x2 + w2 / 2) - max (x1 - w1 / 2) (x2 - w2 / 2));
             ih = max 0 (min (y1 + h1 / 2) (y2 + h2 / 2) - max (y1 - h1 / 2) (y2 - h2 / 2));
             inter = iw * ih
         in inter / (w1 * h1 + w2 * h2 - inter)))"

text \<open>A configuration with every gain 1 and the segmentation head not frozen.\<close>

definition unit_gains :: config where
  "unit_gains = \<lparr>CLS_GAIN = 1, OBJ_GAIN = 1, BOX_GAIN = 1, SEG_GAIN = 1, FREEZE_SEG = False\<rparr>"

text \<open>A scale with one image, one anchor and a grid of one row and two columns, two
  classes, every logit 0.\<close>

definition ex_cell :: cell where
  "ex_cell = \<lparr>c_x = 0, c_y = 0, c_w = 0, c_h = 0, c_obj = 0, c_cls = [0, 0]\<rparr>"

definition ex_pi :: "cell grid" where
  "ex_pi = [[[[ex_cell, ex_cell]]]]"

text \<open>A match in the second column whose target box is the decoded prediction, and a
  second match in the same cell whose target box is twice as wide.\<close>

definition ex_match :: match where
  "ex_match = \<lparr>m_b = 0, m_a = 0, m_gj = 0, m_gi = 1, m_tbox = (0.5, 0.5, 2, 2), m_tcls = 1,
                m_anchor = (2, 2)\<rparr>"

definition ex_match2 :: match where
  "ex_match2 = ex_match\<lparr>m_tbox := (0.5, 0.5, 4, 2)\<rparr>"

definition ex_model :: model where
  "ex_model = \<lparr>gr = 1, nc = 2\<rparr>"



text \<open>Three scales, the first with one match, the other two with none.\<close>

definition ex_bt :: "match list list" where
  "ex_bt = [[ex_match], [], []]"

definition ex_preds :: "cell grid list" where
  "ex_preds = [ex_pi, ex_pi, ex_pi]"

definition acc0 :: acc where
  "acc0 = \<lparr>lcls = 0, lbox = 0, lobj = 0, nt = 0\<rparr>"

text \<open>A store whose objects have the positive weight 1 and the reduction \<open>mean\<close>.\<close>

definition base0 :: BCEWithLogitsLoss where
  "base0 = \<lparr>pos_weight = 1, reduction = ''mean''\<rparr>"

definition ex_heap :: heap where
  "ex_heap = (\<lambda>_. base0)"

section \<open>Properties\<close>

subsection \<open>Loss values\<close>


lemma fl_add_0_left: "0 + x = (x :: fl)"
  by (cases x) (simp_all add: zero_fl_def)


lemma fl_zero_times_not_finite: "0 * Inf = Nan" "0 * NegInf = Nan" "0 * Nan = Nan"
  by (simp_all add: zero_fl_def)

subsection \<open>Label smoothing\<close>

text \<open>
  Claim C6. For every smoothing factor \<open>eps\<close> the label-smoothing generator returns the
  pair \<open>(1 - 0.5 * eps, 0.5 * eps)\<close>; it returns \<open>(1, 0)\<close> for \<open>eps = 0\<close> and
  \<open>(0.95, 0.05)\<close> for \<open>eps = 0.1\<close>. Being a function of \<open>eps\<close> alone, it is pure and
  deterministic. The statement holds for every real \<open>eps\<close>, so in particular on the
  interval from 0 to 1.
\<close>

theorem smooth_BCE_pair:
  "smooth_BCE eps = (1 - 0.5 * eps, 0.5 * eps)
   \<and> smooth_BCE 0 = (1, 0)
   \<and> smooth_BCE 0.1 = (0.95, 0.05)"
  by (simp add: smooth_BCE_def)

subsection \<open>Construction of the aggregator\<close>

text \<open>
  Claim C7. Construction of \<open>MultiHeadLoss\<close> fails with an assertion error whenever
  the supplied weight vector has a negative element, so that no object exists on which a
  forward pass could run; every vector of non-negative weights is accepted.
\<close>

theorem MultiHeadLoss_init_validates:
  "((\<exists>lam \<in> set lams. lam < 0) \<longrightarrow>
      MultiHeadLoss_init ls c (Some lams) = Inl AssertionError)
   \<and> ((\<forall>lam \<in> set lams. 0 \<le> lam) \<longrightarrow>
      (\<exists>self. MultiHeadLoss_init ls c (Some lams) = Inr self))"
proof (intro conjI impI)
  assume neg: "\<exists>lam \<in> set lams. lam < 0"
  then have "lams \<noteq> []" by auto
  moreover from neg have "\<not> list_all (\<lambda>lam. lam \<ge> 0) lams"
    by (auto simp: list_all_iff not_le)
  ultimately show "MultiHeadLoss_init ls c (Some lams) = Inl AssertionError"
    by (simp add: MultiHeadLoss_init_def)
next
  assume nonneg: "\<forall>lam \<in> set lams. 0 \<le> lam"
  then have "list_all (\<lambda>lam. lam \<ge> 0) lams"
    by (simp add: list_all_iff)
  then show "\<exists>self. MultiHeadLoss_init ls c (Some lams) = Inr self"
    by (simp add: MultiHeadLoss_init_def list_all_iff)
qed

theorem MultiHeadLoss_init_validates_witness:
  "(\<exists>lam \<in> set [1, - 1, 1, 1 :: real]. lam < 0)
   \<and> MultiHeadLoss_init [] unit_gains (Some [1, - 1, 1, 1]) = Inl AssertionError
   \<and> list_all (\<lambda>lam. 0 \<le> lam) [0.5, 0, 2, 1 :: real]
   \<and> (\<exists>self. MultiHeadLoss_init [] unit_gains (Some [0.5, 0, 2, 1]) = Inr self)"
  using MultiHeadLoss_init_validates [of "[1, - 1, 1, 1]" "[]" unit_gains]
        MultiHeadLoss_init_validates [of "[0.5, 0, 2, 1]" "[]" unit_gains]
  by simp

text \<open>
  Claim C10. With a falsy \<open>lambdas\<close> argument (\<open>None\<close> or the empty list) the stored
  weight vector is all ones, of length \<open>len(losses) + 1\<close>, hence of length 4 for three
  criteria, and the construction succeeds. A caller-supplied vector of another length is
  stored as it is: the length is not checked.
\<close>

theorem MultiHeadLoss_init_default:
  "MultiHeadLoss_init ls c None
     = Inr \<lparr>losses = ls, lambdas = replicate (length ls + 1) 1, cfg = c\<rparr>
   \<and> MultiHeadLoss_init ls c (Some [])
     = Inr \<lparr>losses = ls, lambdas = replicate (length ls + 1) 1, cfg = c\<rparr>
   \<and> MultiHeadLoss_init [BCEcls, BCEobj, BCEseg] c None
     = Inr \<lparr>losses = [BCEcls, BCEobj, BCEseg], lambdas = [1, 1, 1, 1], cfg = c\<rparr>
   \<and> MultiHeadLoss_init [BCEcls, BCEobj, BCEseg] c (Some [1, 2])
     = Inr \<lparr>losses = [BCEcls, BCEobj, BCEseg], lambdas = [1, 2], cfg = c\<rparr>"
  by (simp add: MultiHeadLoss_init_def list_all_iff numeral_eq_Suc)

subsection \<open>The focal wrapper\<close>

text \<open>The vectorised products of the forward pass, element by element.\<close>

lemma focal_vectorised:
  "length true = length pred \<Longrightarrow>
   map2 (*) (map2 (bce_elem pw) pred true)
     (map2 (*) (map (\<lambda>t. t * a + (1 - t) * (1 - a)) true)
        (map (\<lambda>p. pow_t (1 - p) g) (map2 (\<lambda>t p. t * p + (1 - t) * (1 - p)) true (map sigmoid pred))))
   = map2 (focal_elem pw g a) pred true"
  by (induction pred true rule: list_induct2') (auto simp: focal_elem_def)

lemma FocalLoss_forward_none:
  assumes "BCEWithLogitsLoss.reduction (h (loss_fcn self)) = ''none''"
    and "length true = length pred"
  shows "FocalLoss_forward h self pred true
         = (let l = map2 (focal_elem (pos_weight (h (loss_fcn self))) (gamma self) (alpha self)) pred true
            in if reduction self = ''mean'' then Inr (mean_t l)
               else if reduction self = ''sum'' then Inr (sum_t l)
               else Inr (Elems l))"
  using assms
    focal_vectorised [of true pred "pos_weight (h (loss_fcn self))" "alpha self" "gamma self"]
  by (simp add: FocalLoss_forward_def BCEWithLogitsLoss_forward_def Let_def)

lemma FocalLoss_forward_mismatch:
  "length true \<noteq> length pred \<Longrightarrow> FocalLoss_forward h self pred true = Inl ValueError"
  by (simp add: FocalLoss_forward_def BCEWithLogitsLoss_forward_def)

text \<open>
  Claim C5. Wrapping sets the reduction of the wrapped criterion to \<open>none\<close>, so that an
  invocation of the wrapper obtains the base loss element by element, and the wrapper
  reduces its weighted elements with the reduction the criterion had when it was wrapped:
  the mean for \<open>mean\<close>, the sum for \<open>sum\<close>, and no reduction otherwise.
\<close>

theorem focal_reduction_replayed:
  "fst (FocalLoss_init h r g a) r = (h r)\<lparr>BCEWithLogitsLoss.reduction := ''none''\<rparr>
   \<and> BCEWithLogitsLoss_forward (fst (FocalLoss_init h r g a) r) pred true
       = (if length true \<noteq> length pred then Inl ValueError
          else Inr (Elems (map2 (bce_elem (pos_weight (h r))) pred true)))
   \<and> FocalLoss_forward (fst (FocalLoss_init h r g a)) (snd (FocalLoss_init h r g a)) pred true
       = (if length true \<noteq> length pred then Inl ValueError
          else if BCEWithLogitsLoss.reduction (h r) = ''mean''
            then Inr (mean_t (map2 (focal_elem (pos_weight (h r)) g a) pred true))
          else if BCEWithLogitsLoss.reduction (h r) = ''sum''
            then Inr (sum_t (map2 (focal_elem (pos_weight (h r)) g a) pred true))
          else Inr (Elems (map2 (focal_elem (pos_weight (h r)) g a) pred true)))"
proof (intro conjI)
  show "fst (FocalLoss_init h r g a) r = (h r)\<lparr>BCEWithLogitsLoss.reduction := ''none''\<rparr>"
    by (simp add: FocalLoss_init_def)
  show "BCEWithLogitsLoss_forward (fst (FocalLoss_init h r g a) r) pred true
       = (if length true \<noteq> length pred then Inl ValueError
          else Inr (Elems (map2 (bce_elem (pos_weight (h r))) pred true)))"
    by (simp add: FocalLoss_init_def BCEWithLogitsLoss_forward_def)
  show "FocalLoss_forward (fst (FocalLoss_init h r g a)) (snd (FocalLoss_init h r g a)) pred true
       = (if length true \<noteq> length pred then Inl ValueError
          else if BCEWithLogitsLoss.reduction (h r) = ''mean''
            then Inr (mean_t (map2 (focal_elem (pos_weight (h r)) g a) pred true))
          else if BCEWithLogitsLoss.reduction (h r) = ''sum''
            then Inr (sum_t (map2 (focal_elem (pos_weight (h r)) g a) pred true))
          else Inr (Elems (map2 (focal_elem (pos_weight (h r)) g a) pred true)))"
  proof (cases "length true = length pred")
    case True
    then show ?thesis
      by (simp add: FocalLoss_forward_none FocalLoss_init_def)
  next
    case False
    then show ?thesis
      by (simp add: FocalLoss_forward_mismatch)
  qed
qed

text \<open>With the exponent 0 and the balance 0.5 the weight of every element is one half.\<close>

lemma focal_elem_half: "focal_elem pw 0 (1/2) x y = bce_elem pw x y / 2"
  by (simp add: focal_elem_def pow_t_def field_simps)

lemma sum_list_half: "sum_list (map ((\<lambda>v. v / 2) \<circ> f) xs) = sum_list (map f xs :: real list) / 2"
  by (induction xs) (auto simp: field_simps)

lemma map2_half: "map2 (\<lambda>x y. f x y / 2) xs ys = map (\<lambda>v. v / 2) (map2 f xs ys :: real list)"
  by (induction xs ys rule: list_induct2') auto

text \<open>
  Claim C2, as amended. With \<open>gamma = 0\<close> and \<open>alpha = 0.5\<close> the wrapper returns one half
  of what the unwrapped criterion returns under its original reduction, for all logits and
  targets: the weight of every element is \<open>0.5\<close>, not 1. The original reduction is one
  of \<open>none\<close>, \<open>mean\<close> and \<open>sum\<close>, the modes with which the unwrapped criterion returns.
\<close>

theorem focal_gamma0_alpha_half:
  assumes "BCEWithLogitsLoss.reduction (h r) \<in> {''none'', ''mean'', ''sum''}"
  shows "FocalLoss_forward (fst (FocalLoss_init h r 0 0.5)) (snd (FocalLoss_init h r 0 0.5)) pred true
         = map_sum id (scale_t 0.5) (BCEWithLogitsLoss_forward (h r) pred true)"
proof (cases "length true = length pred")
  case False
  then show ?thesis
    by (simp add: FocalLoss_forward_mismatch BCEWithLogitsLoss_forward_def)
next
  case True
  have e: "focal_elem pw 0 (1 / 2) = (\<lambda>x y. bce_elem pw x y / 2)" for pw
    using focal_elem_half [of pw] by (intro ext) simp
  from True assms show ?thesis
    by (auto simp: FocalLoss_forward_none FocalLoss_init_def BCEWithLogitsLoss_forward_def
        e map2_half sum_list_half mean_t_def sum_t_def Let_def)
qed

theorem focal_gamma0_alpha_half_witness:
  "BCEWithLogitsLoss.reduction (ex_heap 0) \<in> {''none'', ''mean'', ''sum''}
   \<and> BCEWithLogitsLoss_forward (ex_heap 0) [0] [1] = Inr (Scalar (ln 2))
   \<and> FocalLoss_forward (fst (FocalLoss_init ex_heap 0 0 0.5)) (snd (FocalLoss_init ex_heap 0 0 0.5))
        [0] [1] = Inr (Scalar (ln 2 / 2))"
proof -
  have r: "BCEWithLogitsLoss.reduction (ex_heap 0) \<in> {''none'', ''mean'', ''sum''}"
    by (simp add: ex_heap_def base0_def)
  have b: "BCEWithLogitsLoss_forward (ex_heap 0) [0] [1] = Inr (Scalar (ln 2))"
    by (simp add: ex_heap_def base0_def BCEWithLogitsLoss_forward_def mean_t_def bce_elem_def
        sigmoid_def ln_div)
  from focal_gamma0_alpha_half [of ex_heap 0 "[0]" "[1]", OF r] r b show ?thesis by simp
qed

text \<open>
  Claim C2 as stated fails: for the logit 0 and the target 1 the unwrapped criterion
  returns \<open>ln 2\<close> and the wrapper with \<open>gamma = 0\<close> and \<open>alpha = 0.5\<close> returns its half.
\<close>

theorem focal_identity_counterexample:
  "FocalLoss_forward (fst (FocalLoss_init ex_heap 0 0 0.5)) (snd (FocalLoss_init ex_heap 0 0 0.5))
      [0] [1]
   \<noteq> BCEWithLogitsLoss_forward (ex_heap 0) [0] [1]"
  by (simp add: FocalLoss_init_def FocalLoss_forward_def BCEWithLogitsLoss_forward_def
      ex_heap_def base0_def mean_t_def pow_t_def bce_elem_def sigmoid_def Let_def)

subsection \<open>Reading and writing a grid\<close>

lemma norm_index_less: "norm_index d k = Some n \<Longrightarrow> n < d"
  by (auto simp: norm_index_def split: if_splits)

lemma locate_valid4: "locate g m = Some l \<Longrightarrow> valid4 g l"
  by (auto simp: locate_def valid4_def split: option.splits dest: norm_index_less)

lemma valid4_zeros_like: "valid4 (zeros_like g) l = valid4 g l"
  by (cases l) (auto simp: valid4_def zeros_like_def)

lemma get4_zeros_like: "valid4 g l \<Longrightarrow> get4 (zeros_like g) l = 0"
  by (cases l) (auto simp: valid4_def zeros_like_def)

lemma get4_set4_same: "valid4 g l \<Longrightarrow> get4 (set4 g l v) l = v"
  by (cases l) (auto simp: valid4_def)

lemma get4_set4_other: "l \<noteq> l' \<Longrightarrow> get4 (set4 g l v) l' = get4 g l'"
proof (cases l; cases l')
  fix b a j i b' a' j' i'
  assume ne: "l \<noteq> l'" and l: "l = (b, a, j, i)" and l': "l' = (b', a', j', i')"
  show ?thesis
  proof (cases "b' = b")
    case False
    then show ?thesis by (simp add: l l')
  next
    case b: True
    show ?thesis
    proof (cases "b < length g")
      case False
      then show ?thesis by (simp add: l l' list_update_beyond)
    next
      case bl: True
      show ?thesis
      proof (cases "a' = a")
        case False
        with b bl show ?thesis by (simp add: l l')
      next
        case a: True
        show ?thesis
        proof (cases "a < length (g ! b)")
          case False
          with b bl show ?thesis by (simp add: l l' list_update_beyond)
        next
          case al: True
          show ?thesis
          proof (cases "j' = j")
            case False
            with a al b bl show ?thesis by (simp add: l l')
          next
            case j: True
            with ne a b l l' have "i' \<noteq> i" by simp
            with a al b bl j show ?thesis
              by (cases "j < length (g ! b ! a)") (simp_all add: l l' list_update_beyond)
          qed
        qed
      qed
    qed
  qed
qed

lemma valid4_set4: "valid4 (set4 g l v) l' = valid4 g l'"
proof (cases l; cases l')
  fix b a j i b' a' j' i'
  assume l: "l = (b, a, j, i)" and l': "l' = (b', a', j', i')"
  show ?thesis
    unfolding l l' valid4_def
    by (cases "b' = b"; cases "a' = a"; cases "j' = j")
       (auto simp: nth_list_update)
qed

lemma fold_set4_valid:
  "valid4 (fold (\<lambda>(l, v) g'. set4 g' l v) lvs g) l' = valid4 g l'"
proof (induction lvs arbitrary: g)
  case Nil
  show ?case by simp
next
  case (Cons x lvs)
  obtain l v where x: "x = (l, v)" by (cases x)
  have "valid4 (fold (\<lambda>(l, v) g'. set4 g' l v) (x # lvs) g) l'
        = valid4 (fold (\<lambda>(l, v) g'. set4 g' l v) lvs (set4 g l v)) l'"
    by (simp add: x)
  also have "\<dots> = valid4 (set4 g l v) l'" by (rule Cons.IH)
  also have "\<dots> = valid4 g l'" by (rule valid4_set4)
  finally show ?case .
qed

lemma fold_set4_notin:
  "l' \<notin> fst ` set lvs \<Longrightarrow> get4 (fold (\<lambda>(l, v) g'. set4 g' l v) lvs g) l' = get4 g l'"
proof (induction lvs arbitrary: g)
  case Nil
  then show ?case by simp
next
  case (Cons x lvs)
  obtain l v where x: "x = (l, v)" by (cases x)
  with Cons.prems have "l \<noteq> l'" and "l' \<notin> fst ` set lvs" by auto
  with Cons.IH [of "set4 g l v"] show ?case
    by (simp add: x get4_set4_other)
qed

lemma fold_set4_unique:
  assumes "k < length lvs" and "lvs ! k = (l, v)"
    and "\<forall>k' < length lvs. k' \<noteq> k \<longrightarrow> fst (lvs ! k') \<noteq> l"
    and "valid4 g l"
  shows "get4 (fold (\<lambda>(l, v) g'. set4 g' l v) lvs g) l = v"
  using assms
proof (induction lvs arbitrary: k g)
  case Nil
  then show ?case by simp
next
  case (Cons x lvs)
  show ?case
  proof (cases k)
    case 0
    with Cons.prems have x: "x = (l, v)" by simp
    have "l \<notin> fst ` set lvs"
    proof
      assume "l \<in> fst ` set lvs"
      then obtain y where "y \<in> set lvs" and "fst y = l" by auto
      then obtain n where "n < length lvs" and "lvs ! n = y"
        by (auto simp: in_set_conv_nth)
      with Cons.prems(3) 0 \<open>fst y = l\<close> show False
        by (auto dest: spec [of _ "Suc n"])
    qed
    then show ?thesis
      using Cons.prems(4) by (simp add: x fold_set4_notin get4_set4_same)
  next
    case (Suc k0)
    obtain l0 v0 where x: "x = (l0, v0)" by (cases x)
    from Cons.prems Suc have k0: "k0 < length lvs" and at: "lvs ! k0 = (l, v)" by auto
    have others: "\<forall>k' < length lvs. k' \<noteq> k0 \<longrightarrow> fst (lvs ! k') \<noteq> l"
    proof (intro allI impI)
      fix k' assume "k' < length lvs" "k' \<noteq> k0"
      with Cons.prems(3) [rule_format, of "Suc k'"] Suc show "fst (lvs ! k') \<noteq> l" by simp
    qed
    have "valid4 (set4 g l0 v0) l" using Cons.prems(4) by (simp add: valid4_set4)
    from Cons.IH [OF k0 at others this] show ?thesis by (simp add: x)
  qed
qed

lemma those_map_Some:
  "those (map f xs) = Some ys \<Longrightarrow>
   length ys = length xs \<and> (\<forall>k < length xs. f (xs ! k) = Some (ys ! k))"
proof (induction xs arbitrary: ys)
  case Nil
  then show ?case by simp
next
  case (Cons x xs)
  then obtain y ys' where fx: "f x = Some y" and r: "those (map f xs) = Some ys'"
    and ys: "ys = y # ys'"
    by (auto split: option.splits)
  from Cons.IH [OF r] have "length ys' = length xs"
    and n: "\<forall>k < length xs. f (xs ! k) = Some (ys' ! k)" by auto
  show ?case
  proof (intro conjI allI impI)
    show "length ys = length (x # xs)" using \<open>length ys' = length xs\<close> ys by simp
    fix k assume "k < length (x # xs)"
    then show "f ((x # xs) ! k) = Some (ys ! k)"
      using fx n ys by (cases k) auto
  qed
qed

lemma index_put_unique:
  assumes "length locs = length vals" and "k < length locs"
    and "\<forall>k' < length locs. k' \<noteq> k \<longrightarrow> locs ! k' \<noteq> locs ! k"
    and "valid4 g (locs ! k)"
  shows "get4 (index_put g locs vals) (locs ! k) = vals ! k"
proof -
  let ?lvs = "zip locs vals"
  have 1: "k < length ?lvs" using assms by simp
  have 2: "?lvs ! k = (locs ! k, vals ! k)" using assms by simp
  have 3: "\<forall>k' < length ?lvs. k' \<noteq> k \<longrightarrow> fst (?lvs ! k') \<noteq> locs ! k"
    using assms by simp
  show ?thesis
    unfolding index_put_def by (rule fold_set4_unique [OF 1 2 3 assms(4)])
qed

subsection \<open>One scale\<close>

lemma balance_of_length: "i < no \<Longrightarrow> no \<le> 4 \<Longrightarrow> i < length (balance_of no)"
  by (simp add: balance_of_def)

lemma flatten_zeros_like: "list_all (\<lambda>v. v = 0) (flatten (zeros_like g))"
  by (auto simp: list_all_iff flatten_def zeros_like_def)

text \<open>
  Claim C3. A scale without matches, one of at most four, adds nothing to the box and
  classification accumulators, its target tensor is all zero, and its objectness loss,
  the whole objectness channel against the zero target times the balance weight of the
  scale, is added to the objectness accumulator; the pass does not fail.
\<close>

theorem empty_scale:
  assumes "i < no" and "no \<le> 4"
  shows "scale_body bbox_iou BCEcls BCEobj mdl (balance_of no) i pi' [] ac
         = Inr (ac\<lparr>lobj := lobj ac
                   + BCEobj (flatten (obj_channel pi')) (flatten (zeros_like pi'))
                       * Finite (balance_of no ! i)\<rparr>,
                zeros_like pi')
       \<and> list_all (\<lambda>v. v = 0) (flatten (zeros_like pi'))"
  using balance_of_length [OF assms]
  by (simp add: scale_body_def flatten_zeros_like)

text \<open>The evaluation of the concrete batch.\<close>

lemmas ex_defs = ex_pi_def ex_match_def ex_match2_def ex_model_def ex_bt_def ex_preds_def acc0_def

lemma sigmoid_0: "sigmoid 0 = 1 / 2"
  by (simp add: sigmoid_def)

lemma bce_elem_0: "bce_elem 1 0 y = ln 2"
  by (simp add: bce_elem_def sigmoid_0 ln_div algebra_simps)

lemma bce_mean_ex:
  "bce_mean 1 [0] [1] = Finite (ln 2)"
  "bce_mean 1 [0, 0] [0, 0] = Finite (ln 2)"
  "bce_mean 1 [0, 0] [0, 1] = Finite (ln 2)"
  "bce_mean 1 [0, 0] [0, 1 / 2] = Finite (ln 2)"
  "bce_mean 1 [0, 0, 0, 0] [0, 1, 0, 1] = Finite (ln 2)"
  "bce_mean 1 [] [] = Nan"
  by (simp_all add: bce_mean_def bce_elem_0)

lemma decode_ex: "decode ex_cell (2, 2) = (1/2, 1/2, 2, 2)"
  by (simp add: decode_def ex_cell_def sigmoid_0)

lemma locate_ex: "locate ex_pi ex_match = Some (0, 0, 0, 1)"
  by (simp add: locate_def ex_pi_def ex_match_def norm_index_def)

lemma iou_ex: "iou_plain (1/2, 1/2, 2, 2) (1/2, 1/2, 2, 2) = 1"
  by (simp add: iou_plain_def Let_def)

lemma iou_ex2: "iou_plain (1/2, 1/2, 2, 2) (1/2, 1/2, 4, 2) = 1/2"
  by (simp add: iou_plain_def Let_def)

lemma scale_body_ex0:
  "scale_body iou_plain (bce_mean 1) (bce_mean 1) ex_model (balance_of 3) 0 ex_pi [ex_match] ac
   = Inr (\<lparr>lcls = lcls ac + Finite (ln 2), lbox = lbox ac + Finite 0,
           lobj = lobj ac + Finite (ln 2 * 4), nt = Suc (nt ac)\<rparr>, [[[[0, 1]]]])"
  by (simp add: scale_body_def matched_def locate_def norm_index_def Let_def smooth_BCE_def
      index_put_def zeros_like_def mean_def ex_defs decode_ex iou_ex cls_row_def
      balance_of_def flatten_def obj_channel_def)
     (simp add: ex_cell_def bce_mean_ex)


theorem empty_scale_witness:
  "scale_body iou_plain (bce_mean 1) (bce_mean 1) ex_model (balance_of 3) 2 ex_pi [] acc0
     = Inr (\<lparr>lcls = 0, lbox = 0, lobj = Finite (ln 2 * 0.4), nt = 0\<rparr>, [[[[0, 0]]]])
   \<and> list_all (\<lambda>v. v = 0) (flatten (zeros_like ex_pi))"
  using empty_scale [of 2 3 iou_plain "bce_mean 1" "bce_mean 1" ex_model ex_pi acc0]
  by (simp add: acc0_def balance_of_def flatten_def obj_channel_def zeros_like_def ex_pi_def
      ex_cell_def bce_mean_ex fl_add_0_left)

text \<open>The target tensor of a scale, as the matched branch builds it.\<close>

lemma matched_tobj:
  assumes "matched bbox_iou BCEcls mdl pi' ms ac tobj = Inr (ac', tobj')"
  shows "\<exists>locs. those (map (locate pi') ms) = Some locs
          \<and> tobj' = index_put tobj locs
               (map (\<lambda>u. (1 - gr mdl) + gr mdl * max u 0)
                  (map2 bbox_iou (map2 decode (map (get4 pi') locs) (map m_anchor ms)) (map m_tbox ms)))"
proof (cases "those (map (locate pi') ms)")
  case None
  with assms show ?thesis by (simp add: matched_def)
next
  case (Some locs)
  show ?thesis
  proof (cases "nc mdl > 1")
    case False
    with assms Some show ?thesis
      by (simp add: matched_def Let_def smooth_BCE_def)
  next
    case True
    show ?thesis
    proof (cases "collect (map2 (cls_row 1 0) (map (get4 pi') locs) ms)")
      case (Inl e)
      with assms Some True show ?thesis
        by (simp add: matched_def Let_def smooth_BCE_def)
    next
      case (Inr t)
      with assms Some True show ?thesis
        by (simp add: matched_def Let_def smooth_BCE_def)
    qed
  qed
qed

lemma scale_body_tobj:
  assumes "scale_body bbox_iou BCEcls BCEobj mdl balance i pi' ms ac = Inr (ac', tobj)"
    and "ms \<noteq> []"
  shows "\<exists>ac''. matched bbox_iou BCEcls mdl pi' ms ac (zeros_like pi') = Inr (ac'', tobj)"
proof (cases "matched bbox_iou BCEcls mdl pi' ms ac (zeros_like pi')")
  case (Inl e)
  with assms show ?thesis by (simp add: scale_body_def)
next
  case (Inr r)
  obtain ac'' t where r: "r = (ac'', t)" by (cases r)
  with assms Inr show ?thesis
    by (cases "i < length balance") (simp_all add: scale_body_def)
qed

text \<open>
  Claim C4, as amended. For every scale and every match whose cell no other match of the
  scale addresses, the objectness target at the matched cell is
  \<open>(1 - gr) + gr * max IoU 0\<close>, where \<open>IoU\<close> is the value of \<open>bbox_iou\<close> for the decoded
  box of that cell and the target box of the match; with \<open>gr = 1\<close> and \<open>IoU = 1\<close> it is 1.
\<close>

theorem objectness_target_value:
  assumes run: "scale_body bbox_iou BCEcls BCEobj mdl balance i pi' ms ac = Inr (ac', tobj)"
    and k: "k < length ms"
    and uniq: "\<forall>k' < length ms. k' \<noteq> k \<longrightarrow> locate pi' (ms ! k') \<noteq> locate pi' (ms ! k)"
  shows "\<exists>l. locate pi' (ms ! k) = Some l
           \<and> get4 tobj l = (1 - gr mdl)
               + gr mdl * max (bbox_iou (decode (get4 pi' l) (m_anchor (ms ! k))) (m_tbox (ms ! k))) 0
           \<and> (gr mdl = 1 \<and> bbox_iou (decode (get4 pi' l) (m_anchor (ms ! k))) (m_tbox (ms ! k)) = 1
                \<longrightarrow> get4 tobj l = 1)"
proof -
  from k have "ms \<noteq> []" by auto
  from scale_body_tobj [OF run this] obtain ac'' where
    "matched bbox_iou BCEcls mdl pi' ms ac (zeros_like pi') = Inr (ac'', tobj)" ..
  from matched_tobj [OF this] obtain locs where
    locs: "those (map (locate pi') ms) = Some locs"
    and tobj: "tobj = index_put (zeros_like pi') locs
               (map (\<lambda>u. (1 - gr mdl) + gr mdl * max u 0)
                  (map2 bbox_iou (map2 decode (map (get4 pi') locs) (map m_anchor ms)) (map m_tbox ms)))"
    by blast
  let ?vals = "map (\<lambda>u. (1 - gr mdl) + gr mdl * max u 0)
                  (map2 bbox_iou (map2 decode (map (get4 pi') locs) (map m_anchor ms)) (map m_tbox ms))"
  from those_map_Some [OF locs] have len: "length locs = length ms"
    and at: "\<forall>k < length ms. locate pi' (ms ! k) = Some (locs ! k)" by auto
  have lk: "locate pi' (ms ! k) = Some (locs ! k)" using at k by simp
  have lenv: "length locs = length ?vals" using len by simp
  have u: "\<forall>k' < length locs. k' \<noteq> k \<longrightarrow> locs ! k' \<noteq> locs ! k"
  proof (intro allI impI)
    fix k' assume "k' < length locs" "k' \<noteq> k"
    with uniq len at lk show "locs ! k' \<noteq> locs ! k" by auto
  qed
  have v: "valid4 (zeros_like pi') (locs ! k)"
    using locate_valid4 [OF lk] by (simp add: valid4_zeros_like)
  have "get4 tobj (locs ! k) = ?vals ! k"
    unfolding tobj using lenv k len u v by (intro index_put_unique) auto
  also have "\<dots> = (1 - gr mdl)
      + gr mdl * max (bbox_iou (decode (get4 pi' (locs ! k)) (m_anchor (ms ! k))) (m_tbox (ms ! k))) 0"
    using k len by simp
  finally have val: "get4 tobj (locs ! k) = (1 - gr mdl)
      + gr mdl * max (bbox_iou (decode (get4 pi' (locs ! k)) (m_anchor (ms ! k))) (m_tbox (ms ! k))) 0" .
  show ?thesis
    by (rule exI [of _ "locs ! k"]) (use lk val in auto)
qed

theorem objectness_target_value_witness:
  "scale_body iou_plain (bce_mean 1) (bce_mean 1) ex_model (balance_of 3) 0 ex_pi [ex_match] acc0
     = Inr (\<lparr>lcls = Finite (ln 2), lbox = Finite 0, lobj = Finite (ln 2 * 4), nt = 1\<rparr>,
            [[[[0, 1]]]])
   \<and> locate ex_pi ex_match = Some (0, 0, 0, 1)
   \<and> gr ex_model = 1
   \<and> iou_plain (decode (get4 ex_pi (0, 0, 0, 1)) (m_anchor ex_match)) (m_tbox ex_match) = 1
   \<and> get4 [[[[0, 1 :: real]]]] (0, 0, 0, 1) = 1"
proof -
  have run: "scale_body iou_plain (bce_mean 1) (bce_mean 1) ex_model (balance_of 3) 0 ex_pi
               [ex_match] acc0
     = Inr (\<lparr>lcls = Finite (ln 2), lbox = Finite 0, lobj = Finite (ln 2 * 4), nt = 1\<rparr>,
            [[[[0, 1]]]])"
    by (simp add: scale_body_ex0 acc0_def zero_fl_def)
  have k: "0 < length [ex_match]" by simp
  have uniq: "\<forall>k' < length [ex_match]. k' \<noteq> 0
               \<longrightarrow> locate ex_pi ([ex_match] ! k') \<noteq> locate ex_pi ([ex_match] ! 0)"
    by simp
  have g: "gr ex_model = 1" by (simp add: ex_model_def)
  have i: "iou_plain (decode (get4 ex_pi (0, 0, 0, 1)) (m_anchor ex_match)) (m_tbox ex_match) = 1"
    using iou_ex decode_ex by (simp add: ex_pi_def ex_match_def)
  from objectness_target_value [OF run k uniq] g i locate_ex
  have "get4 [[[[0, 1 :: real]]]] (0, 0, 0, 1) = 1" by auto
  with run locate_ex g i show ?thesis by blast
qed

text \<open>
  Claim C4 as stated fails for two matches in one cell: the values of the two matches
  are 1 and one half, and the cell holds one value, here the one of the second match.
\<close>

theorem objectness_target_counterexample:
  "scale_body iou_plain (bce_mean 1) (bce_mean 1) ex_model (balance_of 3) 0 ex_pi
      [ex_match, ex_match2] acc0
     = Inr (\<lparr>lcls = Finite (ln 2), lbox = Finite (1 / 4), lobj = Finite (ln 2 * 4), nt = 2\<rparr>,
            [[[[0, 1 / 2]]]])
   \<and> locate ex_pi ex_match = Some (0, 0, 0, 1)
   \<and> locate ex_pi ex_match2 = Some (0, 0, 0, 1)
   \<and> (1 - gr ex_model) + gr ex_model
        * max (iou_plain (decode (get4 ex_pi (0, 0, 0, 1)) (m_anchor ex_match)) (m_tbox ex_match)) 0
       = 1
   \<and> (1 - gr ex_model) + gr ex_model
        * max (iou_plain (decode (get4 ex_pi (0, 0, 0, 1)) (m_anchor ex_match2)) (m_tbox ex_match2)) 0
       = 1 / 2
   \<and> get4 [[[[0, 1 / 2 :: real]]]] (0, 0, 0, 1) \<noteq> 1"
proof -
  have run: "scale_body iou_plain (bce_mean 1) (bce_mean 1) ex_model (balance_of 3) 0 ex_pi
      [ex_match, ex_match2] acc0
     = Inr (\<lparr>lcls = Finite (ln 2), lbox = Finite (1 / 4), lobj = Finite (ln 2 * 4), nt = 2\<rparr>,
            [[[[0, 1 / 2]]]])"
    by (simp add: scale_body_def matched_def locate_def norm_index_def Let_def smooth_BCE_def
        index_put_def zeros_like_def mean_def ex_defs decode_ex iou_ex iou_ex2 cls_row_def
        balance_of_def flatten_def obj_channel_def)
       (simp add: ex_cell_def bce_mean_ex zero_fl_def)
  have v: "(1 - gr ex_model) + gr ex_model
        * max (iou_plain (decode (get4 ex_pi (0, 0, 0, 1)) (m_anchor ex_match)) (m_tbox ex_match)) 0
       = 1"
    using iou_ex decode_ex by (simp add: ex_pi_def ex_match_def ex_model_def)
  have v2: "(1 - gr ex_model) + gr ex_model
        * max (iou_plain (decode (get4 ex_pi (0, 0, 0, 1)) (m_anchor ex_match2)) (m_tbox ex_match2)) 0
       = 1 / 2"
    using iou_ex2 decode_ex by (simp add: ex_pi_def ex_match_def ex_match2_def ex_model_def)
  have l2: "locate ex_pi ex_match2 = Some (0, 0, 0, 1)"
    by (simp add: locate_def ex_pi_def ex_match2_def ex_match_def norm_index_def)
  have "get4 [[[[0, 1 / 2 :: real]]]] (0, 0, 0, 1) \<noteq> 1" by simp
  with run v v2 l2 locate_ex show ?thesis by blast
qed

subsection \<open>The whole pass\<close>















subsection \<open>A single class\<close>








end
